theory Spec2Isabelle
  imports Main
begin

section \<open>Transfer objects and entities\<close>

text \<open>
  \<^verbatim>\<open>entitiesDtos.ErrorResponse\<close>: the classified error every gateway read and the market
  use case return. \<^verbatim>\<open>Code\<close> is a Go \<^verbatim>\<open>int\<close>; only the literals 400, 404 and 500 are
  ever written or compared, so no wrap-around is involved.
\<close>

record ErrorResponse =
  Code :: int
  Message :: string

text \<open>
  \<^verbatim>\<open>entitiesDtos.MarketRequest\<close> and \<^verbatim>\<open>entities.Market\<close>, with the fields the struct literal
  of \<^verbatim>\<open>CreateMarket\<close> names. The provider identifier and the name are handed to the
  gateway's lookups; the seven descriptive attributes are only copied, their Go types
  are declared elsewhere, so they share the type parameter \<open>'a\<close>. The use case receives
  a pointer to the request and reads its fields; the record is the pointee, so a nil
  request, whose first field read panics, is not among the inputs.
\<close>

record 'a MarketRequest =
  ProviderID :: string
  Name :: string
  Address :: 'a
  Description :: 'a
  Image :: 'a
  OpenTime :: 'a
  CloseTime :: 'a
  Latitude :: 'a
  Longitude :: 'a

record 'a Market =
  ID :: string
  ProviderID :: string
  Name :: string
  Address :: 'a
  Description :: 'a
  Image :: 'a
  OpenTime :: 'a
  CloseTime :: 'a
  Latitude :: 'a
  Longitude :: 'a

text \<open>
  A value of Go's \<^verbatim>\<open>error\<close> interface. The interface exposes the method \<^verbatim>\<open>Error()\<close> only;
  whatever else the dynamic value holds (a classification, a driver code) is the opaque
  payload \<open>'d\<close>. \<^verbatim>\<open>fmt.Errorf\<close> with the verb \<^verbatim>\<open>%w\<close> builds a wrapper that keeps the wrapped
  error and has the formatted text as its message.
\<close>

datatype 'd go_error =
  ErrorValue 'd string
| WrapError string "'d go_error"

fun Error :: "'d go_error \<Rightarrow> string" where
  "Error (ErrorValue d m) = m"
| "Error (WrapError m e) = m"

definition fmt_Errorf_w :: "string \<Rightarrow> 'd go_error \<Rightarrow> 'd go_error" where
  "fmt_Errorf_w prefix err = WrapError (prefix @ Error err) err"

section \<open>The market gateway\<close>

text \<open>
  \<^verbatim>\<open>Interfaces.IMarket\<close>, the capability the use case is constructed with. Its
  implementation is a collaborator, so it is a parameter: each method takes the gateway's
  state \<open>'s\<close> and returns its answer with the state it leaves. A read returns a pair of
  pointers, either of which may be nil, as the Go signature has it. \<^verbatim>\<open>CreateMarket\<close>
  receives a pointer to the entity, so it also returns the entity as the call left it.
\<close>

record ('s, 'p, 'a, 'd) IMarket =
  GetProviderByID :: "string \<Rightarrow> 's \<Rightarrow> ('p option \<times> ErrorResponse option) \<times> 's"
  GetMarketByName :: "string \<Rightarrow> 's \<Rightarrow> ('a Market option \<times> ErrorResponse option) \<times> 's"
  CreateMarket :: "'a Market \<Rightarrow> 's \<Rightarrow> ('d go_error option \<times> 'a Market) \<times> 's"
  GetMarketWithProviderByID ::
    "string \<Rightarrow> 's \<Rightarrow> ('a Market option \<times> ErrorResponse option) \<times> 's"

text \<open>
  The world a call of the use case runs in: the gateway's state and the number of
  identifiers drawn from the UUID source so far. The source itself is the parameter
  \<open>rnd\<close>: \<open>rnd k\<close> is the text of the \<open>k\<close>-th identifier \<^verbatim>\<open>uuid.New().String()\<close> yields.
  The source is taken to deliver: \<^verbatim>\<open>uuid.New\<close> panics only when the system's random reader
  fails.
\<close>

record 's world =
  store :: 's
  drawn :: nat

definition uuid_New_String :: "(nat \<Rightarrow> string) \<Rightarrow> 's world \<Rightarrow> string \<times> 's world" where
  "uuid_New_String rnd w = (rnd (drawn w), w\<lparr>drawn := Suc (drawn w)\<rparr>)"

section \<open>The guarded create workflow\<close>

text \<open>
  \<^verbatim>\<open>MarketUseCase.CreateMarket\<close>, statement by statement: parent lookup, name lookup,
  mapping, write, enrichment read. The Go result \<^verbatim>\<open>(*Market, *ErrorResponse)\<close> is the pair
  of options. In the second check \<open>the errRes\<close> is read only behind \<open>errRes \<noteq> None\<close>,
  as the Go conjunction short-circuits.
\<close>

definition MarketUseCase_CreateMarket ::
  "('s, 'p, 'a, 'd) IMarket \<Rightarrow> (nat \<Rightarrow> string) \<Rightarrow> 'a MarketRequest \<Rightarrow> 's world
    \<Rightarrow> ('a Market option \<times> ErrorResponse option) \<times> 's world" where
  "MarketUseCase_CreateMarket repo rnd marketReq w0 =
    (case GetProviderByID repo (MarketRequest.ProviderID marketReq) (store w0) of
      ((provider, errRes), s1) \<Rightarrow>
        if errRes \<noteq> None then
          ((None, Some \<lparr>Code = 404, Message = ''Provider not found''\<rparr>), w0\<lparr>store := s1\<rparr>)
        else
          (case GetMarketByName repo (MarketRequest.Name marketReq) s1 of
            ((existingMarket, errRes), s2) \<Rightarrow>
              if errRes \<noteq> None \<and> Code (the errRes) \<noteq> 404 then
                ((None, Some \<lparr>Code = 500,
                    Message = ''Failed to check market existence: '' @ Message (the errRes)\<rparr>),
                 w0\<lparr>store := s2\<rparr>)
              else if existingMarket \<noteq> None then
                ((None, Some \<lparr>Code = 400, Message = ''Market already exists''\<rparr>),
                 w0\<lparr>store := s2\<rparr>)
              else
                (case uuid_New_String rnd (w0\<lparr>store := s2\<rparr>) of
                  (newID, w2) \<Rightarrow>
                    (let marketEntity =
                       \<lparr>ID = newID,
                        ProviderID = MarketRequest.ProviderID marketReq,
                        Name = MarketRequest.Name marketReq,
                        Address = MarketRequest.Address marketReq,
                        Description = MarketRequest.Description marketReq,
                        Image = MarketRequest.Image marketReq,
                        OpenTime = MarketRequest.OpenTime marketReq,
                        CloseTime = MarketRequest.CloseTime marketReq,
                        Latitude = MarketRequest.Latitude marketReq,
                        Longitude = MarketRequest.Longitude marketReq\<rparr>
                     in
                       (case CreateMarket repo marketEntity (store w2) of
                         ((err, marketEntity'), s3) \<Rightarrow>
                           (case err of
                             Some e \<Rightarrow>
                               ((None, Some \<lparr>Code = 500,
                                   Message = ''Failed to create market: '' @ Error e\<rparr>),
                                w2\<lparr>store := s3\<rparr>)
                           | None \<Rightarrow>
                               (case GetMarketWithProviderByID repo
                                      (Market.ID marketEntity') s3 of
                                 ((createdMarket, errRes), s4) \<Rightarrow>
                                   (case errRes of
                                     Some e \<Rightarrow>
                                       ((None, Some \<lparr>Code = 500,
                                           Message = ''Failed to retrieve market details: ''
                                             @ Message e\<rparr>),
                                        w2\<lparr>store := s4\<rparr>)
                                   | None \<Rightarrow>
                                       ((createdMarket, None), w2\<lparr>store := s4\<rparr>)))))))))"

section \<open>Observing the gateway calls\<close>

text \<open>
  To speak about which calls the workflow issues, a gateway is wrapped so that every
  call is appended to a log kept beside the gateway's own state; answers and state
  changes are those of the wrapped gateway.
\<close>

datatype 'a call =
  CallGetProviderByID string
| CallGetMarketByName string
| CallCreateMarket "'a Market"
| CallGetMarketWithProviderByID string

definition recording ::
  "('s, 'p, 'a, 'd) IMarket \<Rightarrow> ('s \<times> 'a call list, 'p, 'a, 'd) IMarket" where
  "recording repo =
    \<lparr>GetProviderByID = (\<lambda>i (s, log).
       case GetProviderByID repo i s of (r, s') \<Rightarrow> (r, (s', log @ [CallGetProviderByID i]))),
     GetMarketByName = (\<lambda>n (s, log).
       case GetMarketByName repo n s of (r, s') \<Rightarrow> (r, (s', log @ [CallGetMarketByName n]))),
     CreateMarket = (\<lambda>m (s, log).
       case CreateMarket repo m s of (r, s') \<Rightarrow> (r, (s', log @ [CallCreateMarket m]))),
     GetMarketWithProviderByID = (\<lambda>i (s, log).
       case GetMarketWithProviderByID repo i s of
         (r, s') \<Rightarrow> (r, (s', log @ [CallGetMarketWithProviderByID i])))\<rparr>"

fun writes :: "'a call list \<Rightarrow> 'a Market list" where
  "writes [] = []"
| "writes (CallCreateMarket m # cs) = m # writes cs"
| "writes (c # cs) = writes cs"

text \<open>
  Shorthand for the struct literal of the mapping step, to name the entity handed to
  the gateway's write.
\<close>

abbreviation mapped :: "string \<Rightarrow> 'a MarketRequest \<Rightarrow> 'a Market" where
  "mapped newID marketReq \<equiv>
    \<lparr>ID = newID,
     ProviderID = MarketRequest.ProviderID marketReq,
     Name = MarketRequest.Name marketReq,
     Address = MarketRequest.Address marketReq,
     Description = MarketRequest.Description marketReq,
     Image = MarketRequest.Image marketReq,
     OpenTime = MarketRequest.OpenTime marketReq,
     CloseTime = MarketRequest.CloseTime marketReq,
     Latitude = MarketRequest.Latitude marketReq,
     Longitude = MarketRequest.Longitude marketReq\<rparr>"

section \<open>An in-memory gateway\<close>

text \<open>
  A small gateway to run the workflow on: providers and markets are lists, a market is
  found by name or by identifier, a write puts the entity in front. The parameter names
  the call that is out of order, if any; such a call answers with code 500.
\<close>

record 'a mem =
  providers :: "string list"
  markets :: "'a Market list"

datatype fault = Healthy | ProviderLookupDown | NameLookupDown | WriteDown | ReadDown

definition unavailable :: ErrorResponse where
  "unavailable = \<lparr>Code = 500, Message = ''connection refused''\<rparr>"

definition memRepo :: "fault \<Rightarrow> ('a mem, string, 'a, unit) IMarket" where
  "memRepo f =
    \<lparr>GetProviderByID = (\<lambda>i s.
       if f = ProviderLookupDown then ((None, Some unavailable), s)
       else if i \<in> set (providers s) then ((Some i, None), s)
       else ((None, Some \<lparr>Code = 404, Message = ''Provider not found''\<rparr>), s)),
     GetMarketByName = (\<lambda>n s.
       if f = NameLookupDown then ((None, Some unavailable), s)
       else (case find (\<lambda>m. Market.Name m = n) (markets s) of
               Some m \<Rightarrow> ((Some m, None), s)
             | None \<Rightarrow> ((None, Some \<lparr>Code = 404, Message = ''Market not found''\<rparr>), s))),
     CreateMarket = (\<lambda>m s.
       if f = WriteDown then ((Some (ErrorValue () ''connection refused''), m), s)
       else ((None, m), s\<lparr>markets := m # markets s\<rparr>)),
     GetMarketWithProviderByID = (\<lambda>i s.
       if f = ReadDown then ((None, Some unavailable), s)
       else (case find (\<lambda>m. Market.ID m = i) (markets s) of
               Some m \<Rightarrow> ((Some m, None), s)
             | None \<Rightarrow> ((None, Some \<lparr>Code = 404, Message = ''Market not found''\<rparr>), s)))\<rparr>"

definition lookupByID :: "string \<Rightarrow> 'a mem \<Rightarrow> 'a Market option" where
  "lookupByID i s = find (\<lambda>m. Market.ID m = i) (markets s)"

definition ids :: "nat \<Rightarrow> string" where
  "ids k = ''m-'' @ replicate (Suc k) (CHR ''i'')"

definition central :: "string MarketRequest" where
  "central =
    \<lparr>MarketRequest.ProviderID = ''P1'', Name = ''Central Market'', Address = ''1 Main Rd'',
     Description = ''fresh food'', Image = ''central.png'', OpenTime = ''06:00'',
     CloseTime = ''18:00'', Latitude = ''13.75'', Longitude = ''100.50''\<rparr>"

definition town :: "string mem" where
  "town = \<lparr>providers = [''P1''], markets = []\<rparr>"

definition town_with_central :: "string mem" where
  "town_with_central = \<lparr>providers = [''P1''], markets = [mapped ''m-0'' central]\<rparr>"

section \<open>Users: repository, use case and request handlers\<close>

text \<open>
  \<^verbatim>\<open>dtos.GetUserResponse\<close> with the fields the handler copies. The zero value
  \<^verbatim>\<open>dtos.GetUserResponse{}\<close> has empty strings and no bookings.
\<close>

record 'b GetUserResponse =
  ID :: string
  Username :: string
  Email :: string
  Bookings :: "'b list"
  FirstName :: string
  LastName :: string

definition GetUserResponse_zero :: "'b GetUserResponse" where
  "GetUserResponse_zero =
    \<lparr>ID = [], Username = [], Email = [], Bookings = [], FirstName = [], LastName = []\<rparr>"

text \<open>
  \<^verbatim>\<open>Interfaces.IUserRepository\<close>, as far as the two handlers reach it, again a
  parameter over its own state.
\<close>

record ('s, 'b, 'd) IUserRepository =
  GetUserByID :: "string \<Rightarrow> 's \<Rightarrow> ('b GetUserResponse option \<times> 'd go_error option) \<times> 's"
  DeleteUser :: "string \<Rightarrow> 's \<Rightarrow> 'd go_error option \<times> 's"

definition UserUseCase_GetUserByID ::
  "('s, 'b, 'd) IUserRepository \<Rightarrow> string \<Rightarrow> 's
    \<Rightarrow> ('b GetUserResponse option \<times> 'd go_error option) \<times> 's" where
  "UserUseCase_GetUserByID repo userID s = GetUserByID repo userID s"

definition UserUseCase_DeleteUser ::
  "('s, 'b, 'd) IUserRepository \<Rightarrow> string \<Rightarrow> 's \<Rightarrow> 'd go_error option \<times> 's" where
  "UserUseCase_DeleteUser repo userID s =
    (case DeleteUser repo userID s of
      (err, s') \<Rightarrow>
        (case err of
          Some e \<Rightarrow> (Some (fmt_Errorf_w ''use case error: '' e), s')
        | None \<Rightarrow> (None, s')))"

text \<open>
  What a handler reads from \<^verbatim>\<open>fiber.Ctx\<close>: request-local values (of type \<^verbatim>\<open>interface{}\<close>:
  nil, a string, or a value of another dynamic type) and path parameters. What it
  sends: a status and a JSON body; a body sent without \<^verbatim>\<open>Status\<close> goes out with the
  default 200. A handler either responds or panics (a failed type assertion, a nil
  pointer read); encoding the body is taken to succeed.
\<close>

datatype any = NilAny | StringAny string | OtherAny

record Ctx =
  Locals :: "string \<Rightarrow> any"
  Params :: "string \<Rightarrow> string"

datatype 'b json =
  JString string
| JUser "'b GetUserResponse"
| JMap "(string \<times> 'b json) list"

record 'b response =
  status :: nat
  body :: "'b json"

datatype 'r outcome = Panic | Responded 'r

definition StatusOK :: nat where "StatusOK = 200"
definition StatusForbidden :: nat where "StatusForbidden = 403"
definition StatusNotFound :: nat where "StatusNotFound = 404"
definition StatusInternalServerError :: nat where "StatusInternalServerError = 500"

definition UserHandler_DeleteUser ::
  "('s, 'b, 'd) IUserRepository \<Rightarrow> Ctx \<Rightarrow> 's \<Rightarrow> 'b response outcome \<times> 's" where
  "UserHandler_DeleteUser repo c s =
    (case Locals c ''userID'' of
      StringAny userIdFromToken \<Rightarrow>
        (let userIdToDelete = Params c ''id'' in
          if userIdFromToken \<noteq> userIdToDelete then
            (Responded \<lparr>status = StatusForbidden,
               body = JMap [(''error'', JString ''You are not authorized to delete this user'')]\<rparr>,
             s)
          else
            (case UserUseCase_DeleteUser repo userIdToDelete s of
              (err, s') \<Rightarrow>
                if err \<noteq> None then
                  (Responded \<lparr>status = StatusInternalServerError,
                     body = JMap [(''error'', JString ''Failed to delete user'')]\<rparr>,
                   s')
                else
                  (Responded \<lparr>status = StatusOK,
                     body = JMap [(''message'', JString ''User deleted successfully''),
                                  (''user_id'', JString userIdToDelete)]\<rparr>,
                   s')))
    | _ \<Rightarrow> (Panic, s))"

definition UserHandler_GetUserByID ::
  "('s, 'b, 'd) IUserRepository \<Rightarrow> Ctx \<Rightarrow> 's \<Rightarrow> 'b response outcome \<times> 's" where
  "UserHandler_GetUserByID repo c s =
    (let userId = Params c ''id'' in
      (case UserUseCase_GetUserByID repo userId s of
        ((user, err), s') \<Rightarrow>
          (case err of
            Some e \<Rightarrow>
              if Error e = ''user not found'' then
                (Responded \<lparr>status = StatusNotFound,
                   body = JMap [(''error'', JString ''User not found''),
                                (''message'', JString ''No user found with the provided ID''),
                                (''data'', JUser GetUserResponse_zero)]\<rparr>,
                 s')
              else
                (Responded \<lparr>status = StatusInternalServerError,
                   body = JMap [(''error'', JString ''Internal Server Error''),
                                (''message'', JString (Error e)),
                                (''data'', JUser GetUserResponse_zero)]\<rparr>,
                 s')
          | None \<Rightarrow>
              (case user of
                None \<Rightarrow> (Panic, s')
              | Some u \<Rightarrow>
                  (Responded \<lparr>status = StatusOK,
                     body = JUser \<lparr>ID = GetUserResponse.ID u,
                                   Username = Username u,
                                   Email = Email u,
                                   Bookings = Bookings u,
                                   FirstName = FirstName u,
                                   LastName = LastName u\<rparr>\<rparr>,
                   s')))))"

text \<open>The status a handler sent, if it responded.\<close>

fun sent_status :: "'b response outcome \<times> 's \<Rightarrow> nat option" where
  "sent_status (Responded r, s) = Some (status r)"
| "sent_status (Panic, s) = None"

text \<open>Recording the repository calls, as for the market gateway.\<close>

datatype user_call = CallGetUserByID string | CallDeleteUser string

definition recording_users ::
  "('s, 'b, 'd) IUserRepository \<Rightarrow> ('s \<times> user_call list, 'b, 'd) IUserRepository" where
  "recording_users repo =
    \<lparr>GetUserByID = (\<lambda>i (s, log).
       case GetUserByID repo i s of (r, s') \<Rightarrow> (r, (s', log @ [CallGetUserByID i]))),
     DeleteUser = (\<lambda>i (s, log).
       case DeleteUser repo i s of (r, s') \<Rightarrow> (r, (s', log @ [CallDeleteUser i])))\<rparr>"

text \<open>
  A user repository over a list of user identifiers, and one whose lookup fails with a
  given error; the classification is the tag an error value may carry as its payload.
\<close>

datatype classification = NOT_FOUND | CONFLICT | INTERNAL

definition memUsers :: "(string list, 'b, classification) IUserRepository" where
  "memUsers =
    \<lparr>GetUserByID = (\<lambda>i s.
       if i \<in> set s then ((Some (GetUserResponse_zero\<lparr>GetUserResponse.ID := i\<rparr>), None), s)
       else ((None, Some (ErrorValue NOT_FOUND ''user not found'')), s)),
     DeleteUser = (\<lambda>i s.
       if i \<in> set s then (None, removeAll i s)
       else (Some (ErrorValue NOT_FOUND ''user not found''), s))\<rparr>"

definition failingUsers :: "'d go_error \<Rightarrow> (unit, 'b, 'd) IUserRepository" where
  "failingUsers e =
    \<lparr>GetUserByID = (\<lambda>i s. ((None, Some e), s)),
     DeleteUser = (\<lambda>i s. (Some e, s))\<rparr>"

definition request :: "any \<Rightarrow> string \<Rightarrow> Ctx" where
  "request token_user path_id =
    \<lparr>Locals = (\<lambda>k. if k = ''userID'' then token_user else NilAny),
     Params = (\<lambda>k. if k = ''id'' then path_id else [])\<rparr>"

text \<open>
  Reading an outcome of a run over a recording gateway: the calls issued and the
  gateway's own state at the end. The request \<open>stray\<close> names a provider that \<open>town\<close>
  does not have.
\<close>

fun issued :: "'r \<times> ('s \<times> 'c list) world \<Rightarrow> 'c list" where
  "issued (r, w) = snd (store w)"

fun final_store :: "'r \<times> ('s \<times> 'c list) world \<Rightarrow> 's" where
  "final_store (r, w) = fst (store w)"

definition stray :: "string MarketRequest" where
  "stray = central\<lparr>MarketRequest.ProviderID := ''P404''\<rparr>"





section \<open>Properties of the guarded create workflow\<close>

lemmas run_simps = MarketUseCase_CreateMarket_def recording_def uuid_New_String_def

lemma town_parent:
  "GetProviderByID (memRepo f) (MarketRequest.ProviderID central) town =
    (if f = ProviderLookupDown then ((None, Some unavailable), town)
     else ((Some ''P1'', None), town))"
  by (simp add: memRepo_def central_def town_def)

lemma town_name:
  "GetMarketByName (memRepo f) (MarketRequest.Name central) town =
    (if f = NameLookupDown then ((None, Some unavailable), town)
     else ((None, Some \<lparr>Code = 404, Message = ''Market not found''\<rparr>), town))"
  by (simp add: memRepo_def central_def town_def)

lemma not_found_is_absent:
  "case Some \<lparr>Code = 404, Message = ''Market not found''\<rparr> of
     None \<Rightarrow> True | Some x \<Rightarrow> Code x = 404"
  by simp

text \<open>
  C1. When the parent lookup has passed and the name lookup \<^verbatim>\<open>GetMarketByName\<close> answers
  with an error whose code is not 404, \<^verbatim>\<open>CreateMarket\<close> returns code 500 with the message
  "Failed to check market existence: " followed by the gateway's message; the only calls
  issued are the two lookups, so nothing is written, and the result is not the
  conflict error. This holds whether or not the lookup also returned an entity.
\<close>

theorem name_lookup_failure_internal:
  assumes parent: "GetProviderByID repo (MarketRequest.ProviderID req) s0 = ((p, None), s1)"
    and failed: "GetMarketByName repo (MarketRequest.Name req) s1 = ((m, Some e), s2)"
    and other: "Code e \<noteq> 404"
  shows "MarketUseCase_CreateMarket (recording repo) rnd req \<lparr>store = (s0, []), drawn = n\<rparr> =
      ((None, Some \<lparr>Code = 500,
          Message = ''Failed to check market existence: '' @ Message e\<rparr>),
       \<lparr>store = (s2, [CallGetProviderByID (MarketRequest.ProviderID req),
                      CallGetMarketByName (MarketRequest.Name req)]), drawn = n\<rparr>)
    \<and> writes (issued (MarketUseCase_CreateMarket (recording repo) rnd req
          \<lparr>store = (s0, []), drawn = n\<rparr>)) = []
    \<and> snd (fst (MarketUseCase_CreateMarket (recording repo) rnd req
          \<lparr>store = (s0, []), drawn = n\<rparr>))
        \<noteq> Some \<lparr>Code = 400, Message = ''Market already exists''\<rparr>"
proof -
  have "MarketUseCase_CreateMarket (recording repo) rnd req \<lparr>store = (s0, []), drawn = n\<rparr> =
      ((None, Some \<lparr>Code = 500,
          Message = ''Failed to check market existence: '' @ Message e\<rparr>),
       \<lparr>store = (s2, [CallGetProviderByID (MarketRequest.ProviderID req),
                      CallGetMarketByName (MarketRequest.Name req)]), drawn = n\<rparr>)"
    using parent failed other by (simp add: run_simps)
  then show ?thesis by simp
qed

theorem name_lookup_failure_internal_witness:
  "MarketUseCase_CreateMarket (recording (memRepo NameLookupDown)) ids central
      \<lparr>store = (town, []), drawn = 0\<rparr> =
    ((None, Some \<lparr>Code = 500,
        Message = ''Failed to check market existence: connection refused''\<rparr>),
     \<lparr>store = (town, [CallGetProviderByID ''P1'', CallGetMarketByName ''Central Market'']),
      drawn = 0\<rparr>)"
proof -
  have parent: "GetProviderByID (memRepo NameLookupDown) (MarketRequest.ProviderID central) town =
      ((Some ''P1'', None), town)"
    by (simp add: town_parent)
  have failed: "GetMarketByName (memRepo NameLookupDown) (MarketRequest.Name central) town =
      ((None, Some unavailable), town)"
    by (simp add: town_name)
  have other: "Code unavailable \<noteq> 404"
    by (simp add: unavailable_def)
  from name_lookup_failure_internal [where rnd = ids and n = 0, OF parent failed other]
  show ?thesis by (simp add: central_def unavailable_def)
qed

text \<open>
  C2. When the parent lookup \<^verbatim>\<open>GetProviderByID\<close> answers with an error (the provider
  identifier does not resolve), \<^verbatim>\<open>CreateMarket\<close> returns code 404 with the message
  "Provider not found"; the parent lookup is the only call issued, so nothing is
  written and no identifier is drawn.
\<close>

theorem parent_missing_not_found:
  assumes missing: "GetProviderByID repo (MarketRequest.ProviderID req) s0 = ((p, Some e), s1)"
  shows "MarketUseCase_CreateMarket (recording repo) rnd req \<lparr>store = (s0, []), drawn = n\<rparr> =
      ((None, Some \<lparr>Code = 404, Message = ''Provider not found''\<rparr>),
       \<lparr>store = (s1, [CallGetProviderByID (MarketRequest.ProviderID req)]), drawn = n\<rparr>)
    \<and> writes (issued (MarketUseCase_CreateMarket (recording repo) rnd req
          \<lparr>store = (s0, []), drawn = n\<rparr>)) = []"
  using missing by (simp add: run_simps)

theorem parent_missing_not_found_witness:
  "MarketUseCase_CreateMarket (recording (memRepo Healthy)) ids stray
      \<lparr>store = (town, []), drawn = 0\<rparr> =
    ((None, Some \<lparr>Code = 404, Message = ''Provider not found''\<rparr>),
     \<lparr>store = (town, [CallGetProviderByID ''P404'']), drawn = 0\<rparr>)"
proof -
  have missing: "GetProviderByID (memRepo Healthy) (MarketRequest.ProviderID stray) town =
      ((None, Some \<lparr>Code = 404, Message = ''Provider not found''\<rparr>), town)"
    by (simp add: memRepo_def stray_def central_def town_def)
  from parent_missing_not_found [where rnd = ids and n = 0, OF missing]
  show ?thesis by (simp add: stray_def central_def)
qed

text \<open>
  C3. The claim asks that an error of the parent lookup other than "not found" be
  surfaced as code 500 with the gateway's message. Here the provider lookup is out of
  order and answers with code 500 and "connection refused" for a provider that exists;
  \<^verbatim>\<open>CreateMarket\<close> returns code 404 "Provider not found", without the gateway's message.
  The name lookup of the same function does tell code 404 from the other codes.
\<close>

theorem parent_lookup_outage_reported_not_found:
  "fst (GetProviderByID (memRepo ProviderLookupDown :: (string mem, string, string, unit) IMarket)
          (MarketRequest.ProviderID central) town) =
     (None, Some \<lparr>Code = 500, Message = ''connection refused''\<rparr>)
   \<and> ''P1'' \<in> set (providers town)
   \<and> fst (MarketUseCase_CreateMarket
            (memRepo ProviderLookupDown :: (string mem, string, string, unit) IMarket)
            ids central \<lparr>store = town, drawn = 0\<rparr>) =
     (None, Some \<lparr>Code = 404, Message = ''Provider not found''\<rparr>)"
proof -
  have "''P1'' \<in> set (providers town)"
    by (simp add: town_def)
  then show ?thesis
    by (simp add: MarketUseCase_CreateMarket_def town_parent unavailable_def)
qed

text \<open>
  C4, as stated, fails: the parent check runs first, so a request whose name is taken
  and whose provider is missing gets code 404, not the conflict. In \<open>town_with_central\<close>
  the name "Central Market" exists and the request \<open>stray\<close> names the absent provider
  P404.
\<close>

theorem name_taken_parent_missing_counterexample:
  "fst (GetMarketByName (memRepo Healthy :: (string mem, string, string, unit) IMarket)
          (MarketRequest.Name stray) town_with_central) =
     (Some (mapped ''m-0'' central), None)
   \<and> fst (MarketUseCase_CreateMarket
            (recording (memRepo Healthy :: (string mem, string, string, unit) IMarket))
            ids stray \<lparr>store = (town_with_central, []), drawn = 1\<rparr>) =
     (None, Some \<lparr>Code = 404, Message = ''Provider not found''\<rparr>)
   \<and> fst (MarketUseCase_CreateMarket
            (recording (memRepo Healthy :: (string mem, string, string, unit) IMarket))
            ids stray \<lparr>store = (town_with_central, []), drawn = 1\<rparr>) \<noteq>
     (None, Some \<lparr>Code = 400, Message = ''Market already exists''\<rparr>)"
  by (simp add: run_simps memRepo_def stray_def central_def town_with_central_def)

text \<open>
  C4, amended. When the parent lookup has passed and the name lookup returns an entity,
  with no error or with an error of code 404, \<^verbatim>\<open>CreateMarket\<close> returns code 400 with
  the message "Market already exists"; the only calls issued are the two lookups, so
  nothing is written.
\<close>

theorem name_taken_conflict:
  assumes parent: "GetProviderByID repo (MarketRequest.ProviderID req) s0 = ((p, None), s1)"
    and taken: "GetMarketByName repo (MarketRequest.Name req) s1 = ((Some m, e), s2)"
    and absent: "case e of None \<Rightarrow> True | Some x \<Rightarrow> Code x = 404"
  shows "MarketUseCase_CreateMarket (recording repo) rnd req \<lparr>store = (s0, []), drawn = n\<rparr> =
      ((None, Some \<lparr>Code = 400, Message = ''Market already exists''\<rparr>),
       \<lparr>store = (s2, [CallGetProviderByID (MarketRequest.ProviderID req),
                      CallGetMarketByName (MarketRequest.Name req)]), drawn = n\<rparr>)
    \<and> writes (issued (MarketUseCase_CreateMarket (recording repo) rnd req
          \<lparr>store = (s0, []), drawn = n\<rparr>)) = []"
proof -
  have "MarketUseCase_CreateMarket (recording repo) rnd req \<lparr>store = (s0, []), drawn = n\<rparr> =
      ((None, Some \<lparr>Code = 400, Message = ''Market already exists''\<rparr>),
       \<lparr>store = (s2, [CallGetProviderByID (MarketRequest.ProviderID req),
                      CallGetMarketByName (MarketRequest.Name req)]), drawn = n\<rparr>)"
    using parent taken absent by (auto simp add: run_simps split: option.splits)
  then show ?thesis by simp
qed

theorem name_taken_conflict_witness:
  "MarketUseCase_CreateMarket (recording (memRepo Healthy)) ids central
      \<lparr>store = (town_with_central, []), drawn = 1\<rparr> =
    ((None, Some \<lparr>Code = 400, Message = ''Market already exists''\<rparr>),
     \<lparr>store = (town_with_central,
        [CallGetProviderByID ''P1'', CallGetMarketByName ''Central Market'']), drawn = 1\<rparr>)"
proof -
  have parent: "GetProviderByID (memRepo Healthy) (MarketRequest.ProviderID central)
        town_with_central = ((Some ''P1'', None), town_with_central)"
    by (simp add: memRepo_def central_def town_with_central_def)
  have taken: "GetMarketByName (memRepo Healthy) (MarketRequest.Name central)
        town_with_central = ((Some (mapped ''m-0'' central), None), town_with_central)"
    by (simp add: memRepo_def central_def town_with_central_def)
  have absent: "case None :: ErrorResponse option of None \<Rightarrow> True | Some x \<Rightarrow> Code x = 404"
    by simp
  from name_taken_conflict [where rnd = ids and n = 1, OF parent taken absent]
  show ?thesis by (simp add: central_def)
qed




text \<open>
  C6. When both checks pass and the gateway's write fails, \<^verbatim>\<open>CreateMarket\<close> returns code
  500 with the message "Failed to create market: " followed by the error's text; the
  write is the last call issued and is issued once.
\<close>

theorem write_failure_internal:
  assumes parent: "GetProviderByID repo (MarketRequest.ProviderID req) s0 = ((p, None), s1)"
    and name: "GetMarketByName repo (MarketRequest.Name req) s1 = ((None, e), s2)"
    and absent: "case e of None \<Rightarrow> True | Some x \<Rightarrow> Code x = 404"
    and refused: "CreateMarket repo (mapped (rnd n) req) s2 = ((Some err, m'), s3)"
  shows "MarketUseCase_CreateMarket (recording repo) rnd req \<lparr>store = (s0, []), drawn = n\<rparr> =
      ((None, Some \<lparr>Code = 500, Message = ''Failed to create market: '' @ Error err\<rparr>),
       \<lparr>store = (s3, [CallGetProviderByID (MarketRequest.ProviderID req),
                      CallGetMarketByName (MarketRequest.Name req),
                      CallCreateMarket (mapped (rnd n) req)]), drawn = Suc n\<rparr>)
    \<and> length (writes (issued (MarketUseCase_CreateMarket (recording repo) rnd req
          \<lparr>store = (s0, []), drawn = n\<rparr>))) = 1"
proof -
  have "MarketUseCase_CreateMarket (recording repo) rnd req \<lparr>store = (s0, []), drawn = n\<rparr> =
      ((None, Some \<lparr>Code = 500, Message = ''Failed to create market: '' @ Error err\<rparr>),
       \<lparr>store = (s3, [CallGetProviderByID (MarketRequest.ProviderID req),
                      CallGetMarketByName (MarketRequest.Name req),
                      CallCreateMarket (mapped (rnd n) req)]), drawn = Suc n\<rparr>)"
    using parent name absent refused by (auto simp add: run_simps split: option.splits)
  then show ?thesis by simp
qed

theorem write_failure_internal_witness:
  "MarketUseCase_CreateMarket (recording (memRepo WriteDown)) ids central
      \<lparr>store = (town, []), drawn = 0\<rparr> =
    ((None, Some \<lparr>Code = 500, Message = ''Failed to create market: connection refused''\<rparr>),
     \<lparr>store = (town, [CallGetProviderByID ''P1'', CallGetMarketByName ''Central Market'',
                      CallCreateMarket (mapped ''m-i'' central)]), drawn = 1\<rparr>)
   \<and> length (writes (issued (MarketUseCase_CreateMarket (recording (memRepo WriteDown))
        ids central \<lparr>store = (town, []), drawn = 0\<rparr>))) = 1"
proof -
  have parent: "GetProviderByID (memRepo WriteDown) (MarketRequest.ProviderID central) town =
      ((Some ''P1'', None), town)"
    by (simp add: town_parent)
  have name: "GetMarketByName (memRepo WriteDown) (MarketRequest.Name central) town =
      ((None, Some \<lparr>Code = 404, Message = ''Market not found''\<rparr>), town)"
    by (simp add: town_name)
  have refused: "CreateMarket (memRepo WriteDown) (mapped (ids 0) central) town =
      ((Some (ErrorValue () ''connection refused''), mapped (ids 0) central), town)"
    by (simp add: memRepo_def)
  from write_failure_internal [where rnd = ids and n = 0,
      OF parent name not_found_is_absent refused]
  show ?thesis by (simp add: ids_def central_def)
qed

text \<open>
  C7. When the write succeeds and the enrichment read \<^verbatim>\<open>GetMarketWithProviderByID\<close>
  fails, \<^verbatim>\<open>CreateMarket\<close> returns code 500 with the message "Failed to retrieve market
  details: " followed by the gateway's message, and the failed read is the last call
  it issues: nothing is undone. So for a gateway whose successful write makes the
  entity findable under the identifier it was written with, and whose enrichment read
  leaves what a lookup finds, a lookup by the generated identifier in the store the
  workflow leaves finds the entity.
\<close>

theorem enrichment_failure_keeps_entity:
  assumes parent: "GetProviderByID repo (MarketRequest.ProviderID req) s0 = ((p, None), s1)"
    and name: "GetMarketByName repo (MarketRequest.Name req) s1 = ((None, e), s2)"
    and absent: "case e of None \<Rightarrow> True | Some x \<Rightarrow> Code x = 404"
    and persisted: "CreateMarket repo (mapped (rnd n) req) s2 = ((None, m'), s3)"
    and unread: "GetMarketWithProviderByID repo (Market.ID m') s3 = ((c, Some err), s4)"
    and findable: "\<forall>m m' s s'. CreateMarket repo m s = ((None, m'), s') \<longrightarrow>
          lookup (Market.ID m) s' = Some m'"
    and read_only: "\<forall>i j s. lookup j (snd (GetMarketWithProviderByID repo i s)) = lookup j s"
  shows "MarketUseCase_CreateMarket (recording repo) rnd req \<lparr>store = (s0, []), drawn = n\<rparr> =
      ((None, Some \<lparr>Code = 500,
          Message = ''Failed to retrieve market details: '' @ Message err\<rparr>),
       \<lparr>store = (s4, [CallGetProviderByID (MarketRequest.ProviderID req),
                      CallGetMarketByName (MarketRequest.Name req),
                      CallCreateMarket (mapped (rnd n) req),
                      CallGetMarketWithProviderByID (Market.ID m')]), drawn = Suc n\<rparr>)
    \<and> lookup (rnd n) (final_store (MarketUseCase_CreateMarket (recording repo) rnd req
          \<lparr>store = (s0, []), drawn = n\<rparr>)) = Some m'"
proof -
  have run: "MarketUseCase_CreateMarket (recording repo) rnd req \<lparr>store = (s0, []), drawn = n\<rparr> =
      ((None, Some \<lparr>Code = 500,
          Message = ''Failed to retrieve market details: '' @ Message err\<rparr>),
       \<lparr>store = (s4, [CallGetProviderByID (MarketRequest.ProviderID req),
                      CallGetMarketByName (MarketRequest.Name req),
                      CallCreateMarket (mapped (rnd n) req),
                      CallGetMarketWithProviderByID (Market.ID m')]), drawn = Suc n\<rparr>)"
    using parent name absent persisted unread
    by (auto simp add: run_simps split: option.splits)
  have "lookup (rnd n) s3 = Some m'"
    using findable [rule_format, OF persisted] by simp
  moreover have "lookup (rnd n) s4 = lookup (rnd n) s3"
    using read_only unread by (metis snd_conv)
  ultimately show ?thesis using run by simp
qed

theorem enrichment_failure_keeps_entity_witness:
  "MarketUseCase_CreateMarket (recording (memRepo ReadDown)) ids central
      \<lparr>store = (town, []), drawn = 0\<rparr> =
    ((None, Some \<lparr>Code = 500,
        Message = ''Failed to retrieve market details: connection refused''\<rparr>),
     \<lparr>store = (town\<lparr>markets := [mapped ''m-i'' central]\<rparr>,
        [CallGetProviderByID ''P1'', CallGetMarketByName ''Central Market'',
         CallCreateMarket (mapped ''m-i'' central),
         CallGetMarketWithProviderByID ''m-i'']), drawn = 1\<rparr>)
   \<and> lookupByID ''m-i'' (final_store (MarketUseCase_CreateMarket (recording (memRepo ReadDown))
        ids central \<lparr>store = (town, []), drawn = 0\<rparr>)) = Some (mapped ''m-i'' central)"
proof -
  have parent: "GetProviderByID (memRepo ReadDown) (MarketRequest.ProviderID central) town =
      ((Some ''P1'', None), town)"
    by (simp add: town_parent)
  have name: "GetMarketByName (memRepo ReadDown) (MarketRequest.Name central) town =
      ((None, Some \<lparr>Code = 404, Message = ''Market not found''\<rparr>), town)"
    by (simp add: town_name)
  have persisted: "CreateMarket (memRepo ReadDown) (mapped (ids 0) central) town =
      ((None, mapped (ids 0) central), town\<lparr>markets := [mapped (ids 0) central]\<rparr>)"
    by (simp add: memRepo_def town_def)
  have unread: "GetMarketWithProviderByID (memRepo ReadDown)
        (Market.ID (mapped (ids 0) central)) (town\<lparr>markets := [mapped (ids 0) central]\<rparr>) =
      ((None, Some unavailable), town\<lparr>markets := [mapped (ids 0) central]\<rparr>)"
    by (simp add: memRepo_def)
  have findable: "\<forall>(m :: string Market) m' s s'.
      CreateMarket (memRepo ReadDown) m s = ((None, m'), s') \<longrightarrow>
      lookupByID (Market.ID m) s' = Some m'"
    by (auto simp add: memRepo_def lookupByID_def)
  have read_only: "\<forall>i j (s :: string mem).
      lookupByID j (snd (GetMarketWithProviderByID (memRepo ReadDown) i s)) = lookupByID j s"
    by (simp add: memRepo_def)
  from enrichment_failure_keeps_entity
    [where rnd = ids and n = 0 and lookup = lookupByID,
     OF parent name not_found_is_absent persisted unread findable read_only]
  show ?thesis by (simp add: ids_def central_def unavailable_def lookupByID_def)
qed

text \<open>
  C8. Whatever the gateway answers and whatever the request, an error returned by
  \<^verbatim>\<open>CreateMarket\<close> has code 404, 400 or 500.
\<close>

theorem error_codes_closed:
  assumes "snd (fst (MarketUseCase_CreateMarket repo rnd req w)) = Some e"
  shows "Code e \<in> {404, 400, 500}"
  using assms
  by (auto simp add: MarketUseCase_CreateMarket_def uuid_New_String_def Let_def
      split: prod.splits if_splits option.splits)

theorem error_codes_closed_witness:
  "snd (fst (MarketUseCase_CreateMarket (memRepo Healthy) ids stray
      \<lparr>store = town, drawn = 0\<rparr>)) = Some \<lparr>Code = 404, Message = ''Provider not found''\<rparr>
   \<and> Code \<lparr>Code = 404, Message = ''Provider not found''\<rparr> \<in> {404, 400, 500}"
proof -
  have returned: "snd (fst (MarketUseCase_CreateMarket (memRepo Healthy) ids stray
      \<lparr>store = town, drawn = 0\<rparr>)) = Some \<lparr>Code = 404, Message = ''Provider not found''\<rparr>"
    by (simp add: MarketUseCase_CreateMarket_def memRepo_def stray_def central_def town_def)
  from error_codes_closed [OF returned] returned show ?thesis by blast
qed

section \<open>Properties of the user handlers\<close>

text \<open>
  C9, as stated, fails: the handler does not select the status by a tag on the error.
  Two lookup errors with the same tag and different texts get 404 and 500, and an error
  tagged as internal whose text is "user not found" gets 404.
\<close>

theorem status_by_tag_counterexample:
  "sent_status (UserHandler_GetUserByID
      (failingUsers (ErrorValue NOT_FOUND ''user not found'')
        :: (unit, unit, classification) IUserRepository)
      (request NilAny ''u1'') ()) = Some 404
   \<and> sent_status (UserHandler_GetUserByID
      (failingUsers (ErrorValue NOT_FOUND ''record not found'')
        :: (unit, unit, classification) IUserRepository)
      (request NilAny ''u1'') ()) = Some 500
   \<and> sent_status (UserHandler_GetUserByID
      (failingUsers (ErrorValue INTERNAL ''user not found'')
        :: (unit, unit, classification) IUserRepository)
      (request NilAny ''u1'') ()) = Some 404"
  by (simp add: UserHandler_GetUserByID_def UserUseCase_GetUserByID_def failingUsers_def
      request_def StatusNotFound_def StatusInternalServerError_def)

text \<open>
  C9, amended. For every error of the user lookup, the \<^verbatim>\<open>GetUserByID\<close> handler sends
  status 404 exactly when the error's message text is "user not found", and status 500
  for every other error; nothing else the error value carries has a part in it.
\<close>

theorem lookup_error_status_by_message:
  assumes "GetUserByID repo (Params c ''id'') s = ((u, Some e), s')"
  shows "sent_status (UserHandler_GetUserByID repo c s) =
      Some (if Error e = ''user not found'' then 404 else 500)"
  using assms
  by (simp add: UserHandler_GetUserByID_def UserUseCase_GetUserByID_def
      StatusNotFound_def StatusInternalServerError_def)

theorem lookup_error_status_by_message_witness:
  "sent_status (UserHandler_GetUserByID
      (failingUsers (ErrorValue INTERNAL ''connection refused'')
        :: (unit, unit, classification) IUserRepository)
      (request NilAny ''u1'') ()) = Some 500"
proof -
  have failed: "GetUserByID
      (failingUsers (ErrorValue INTERNAL ''connection refused'')
        :: (unit, unit, classification) IUserRepository)
      (Params (request NilAny ''u1'') ''id'') () =
      ((None, Some (ErrorValue INTERNAL ''connection refused'')), ())"
    by (simp add: failingUsers_def)
  from lookup_error_status_by_message [OF failed] show ?thesis by simp
qed

text \<open>
  C10. The \<^verbatim>\<open>DeleteUser\<close> handler calls the delete of the use case, hence of the
  repository, exactly when the request-local user identifier is a string equal to the
  path's identifier, and then once, for that identifier. When the two identifiers
  differ it responds with status 403 and the error "You are not authorized to delete
  this user", issues no call and leaves the repository as it was.
\<close>

theorem delete_user_only_own:
  "snd (snd (UserHandler_DeleteUser (recording_users repo) c (s, []))) =
      (if Locals c ''userID'' = StringAny (Params c ''id'')
       then [CallDeleteUser (Params c ''id'')] else [])
   \<and> (\<forall>u. Locals c ''userID'' = StringAny u \<and> u \<noteq> Params c ''id'' \<longrightarrow>
        UserHandler_DeleteUser (recording_users repo) c (s, []) =
          (Responded \<lparr>status = 403,
             body = JMap [(''error'', JString ''You are not authorized to delete this user'')]\<rparr>,
           (s, [])))"
  by (cases "Locals c ''userID''")
    (auto simp add: UserHandler_DeleteUser_def UserUseCase_DeleteUser_def recording_users_def
      StatusForbidden_def Let_def split: prod.splits option.splits)

theorem delete_user_only_own_witness:
  "snd (snd (UserHandler_DeleteUser
      (recording_users (memUsers :: (string list, unit, classification) IUserRepository))
      (request (StringAny ''u1'') ''u1'') ([''u1'', ''u2''], []))) = [CallDeleteUser ''u1'']
   \<and> UserHandler_DeleteUser
      (recording_users (memUsers :: (string list, unit, classification) IUserRepository))
      (request (StringAny ''u1'') ''u2'') ([''u1'', ''u2''], []) =
      (Responded \<lparr>status = 403,
         body = JMap [(''error'', JString ''You are not authorized to delete this user'')]\<rparr>,
       ([''u1'', ''u2''], []))"
  using
    delete_user_only_own [of "memUsers :: (string list, unit, classification) IUserRepository"
      "request (StringAny ''u1'') ''u1''" "[''u1'', ''u2'']"]
    delete_user_only_own [of "memUsers :: (string list, unit, classification) IUserRepository"
      "request (StringAny ''u1'') ''u2''" "[''u1'', ''u2'']"]
  by (simp add: request_def)

end
